theory Spec2Isabelle
  imports Main
begin

section \<open>The chess analyzer page\<close>

text \<open>
  The program is one Streamlit script. Every user interaction re-executes the script from
  top to bottom against the session state, which is the only thing that survives between
  two executions. The embedding follows the script block by block:
  the evaluation-bar block (lines 62-69), the Play Move handler (lines 85-139), the Undo
  handler (lines 142-148) and the Reset handler (lines 151-155).

  Two libraries are called but are not part of the repository: the chess rules library
  (\<^verbatim>\<open>chess.Board\<close>, \<^verbatim>\<open>chess.Move\<close>) and the engine wrapper (\<^verbatim>\<open>Stockfish\<close>). Their operations
  are parameters of the model (records of functions), and every call that can raise returns
  a sum whose left injection is the exception. The drawing calls (\<^verbatim>\<open>st.markdown\<close>,
  \<^verbatim>\<open>st.pyplot\<close>, \<^verbatim>\<open>chess.svg.board\<close>) read the state without changing it and are left out.
\<close>

subsection \<open>Data\<close>

text \<open>An exception is kept as its message, which is all the script uses of it (line 139).\<close>

type_synonym exn = string

text \<open>The dictionary returned by \<^verbatim>\<open>stockfish.get_evaluation()\<close>: keys \<^verbatim>\<open>"type"\<close> and \<^verbatim>\<open>"value"\<close>.\<close>

record evaluation =
  eval_type :: string
  eval_value :: int

text \<open>
  The six labels returned by \<^verbatim>\<open>move_quality\<close> (lines 99-112); each constructor stands for
  the label string that starts with the same word.
\<close>

datatype quality = Unclear | Excellent | Good | Inaccuracy | Mistake | Blunder

text \<open>
  One row of \<^verbatim>\<open>move_history\<close> (lines 124-129), keys \<^verbatim>\<open>"Your Move"\<close>, \<^verbatim>\<open>"Best Move"\<close>,
  \<^verbatim>\<open>"Move Quality"\<close>, \<^verbatim>\<open>"Eval"\<close>. \<^verbatim>\<open>get_best_move()\<close> returns a string or \<^verbatim>\<open>None\<close>.
\<close>

record move_record =
  Your_Move :: string
  Best_Move :: "string option"
  Move_Quality :: quality
  Eval :: int

text \<open>The dictionary stored under \<^verbatim>\<open>"last_data"\<close> by a played move (lines 116-121).\<close>

record summary =
  user_move :: string
  best_move :: "string option"
  quality :: quality
  eval :: evaluation

text \<open>
  The \<^verbatim>\<open>"last_data"\<close> entry of the session state: the key is missing until a move is played
  or Reset is pressed, Reset stores the empty dictionary (line 155), a played move stores
  a summary.
\<close>

datatype last_data_entry = Missing | Empty_Dict | Filled summary

text \<open>\<^verbatim>\<open>data = st.session_state.get("last_data", {}); if data:\<close> (lines 159-160).\<close>

fun shows_summary :: "last_data_entry \<Rightarrow> bool" where
  "shows_summary Missing = False"
| "shows_summary Empty_Dict = False"
| "shows_summary (Filled d) = True"

text \<open>
  The session state. The script creates the board with \<^verbatim>\<open>chess.Board()\<close> and afterwards only
  pushes, pops and resets it, so the board is the standard starting position together with
  its move stack; it is modelled by the move stack (\<^verbatim>\<open>board.move_stack\<close>), oldest move first.
  \<^verbatim>\<open>push\<close> appends a move, \<^verbatim>\<open>pop\<close> removes the last one, \<^verbatim>\<open>reset\<close> empties the stack.
\<close>

record 'm session =
  board :: "'m list"
  evals :: "int list"
  move_history :: "move_record list"
  last_data :: last_data_entry

text \<open>The state after lines 18-23 of the first execution.\<close>

definition fresh :: "'m session" where
  "fresh = \<lparr>board = [], evals = [], move_history = [], last_data = Missing\<rparr>"

subsection \<open>The two external services\<close>

text \<open>
  The rules library, as far as the script uses it: \<^verbatim>\<open>chess.Move.from_uci\<close> (raises on a
  malformed string), \<^verbatim>\<open>move in board.legal_moves\<close>, \<^verbatim>\<open>board.is_game_over()\<close> and
  \<^verbatim>\<open>board.fen()\<close>.
\<close>

record 'm rules =
  from_uci :: "string \<Rightarrow> exn + 'm"
  legal :: "'m list \<Rightarrow> 'm \<Rightarrow> bool"
  is_game_over :: "'m list \<Rightarrow> bool"
  fen :: "'m list \<Rightarrow> string"

text \<open>
  The engine wrapper. The engine is a process with a state of its own (type \<open>'e\<close>); every
  command takes the engine state and either raises or returns its answer with the next
  engine state. The script starts a new engine at the top of every execution (line 14).
\<close>

record 'e engine =
  set_fen_position :: "string \<Rightarrow> 'e \<Rightarrow> exn + 'e"
  get_evaluation :: "'e \<Rightarrow> exn + (evaluation \<times> 'e)"
  get_best_move :: "'e \<Rightarrow> exn + (string option \<times> 'e)"
  make_moves_from_current_position :: "string option list \<Rightarrow> 'e \<Rightarrow> exn + 'e"

subsection \<open>Pure helpers\<close>

text \<open>
  \<^verbatim>\<open>str.strip()\<close> on the characters of an Isabelle string: the ASCII characters for which
  \<^verbatim>\<open>str.isspace\<close> holds are removed at both ends.
\<close>

definition is_space :: "char \<Rightarrow> bool" where
  "is_space c = (c \<in> set [CHR 0x09, CHR 0x0A, CHR 0x0B, CHR 0x0C, CHR 0x0D,
                            CHR 0x1C, CHR 0x1D, CHR 0x1E, CHR 0x1F, CHR 0x20])"

definition strip :: "string \<Rightarrow> string" where
  "strip s = rev (dropWhile is_space (rev (dropWhile is_space s)))"

text \<open>Line 65: the sample that goes into the chart.\<close>

definition eval_score :: "evaluation \<Rightarrow> int" where
  "eval_score eval_data =
     (if eval_type eval_data = ''cp'' then eval_value eval_data
      else (if eval_value eval_data > 0 then 1000 else - 1000))"

text \<open>Lines 99-112.\<close>

definition move_quality :: "evaluation \<Rightarrow> evaluation \<Rightarrow> quality" where
  "move_quality score1 score2 =
     (if eval_type score1 \<noteq> eval_type score2 then Unclear
      else let diff = \<bar>eval_value score1 - eval_value score2\<bar> in
        if diff < 30 then Excellent
        else if diff < 80 then Good
        else if diff < 150 then Inaccuracy
        else if diff < 300 then Mistake
        else Blunder)"

subsection \<open>The evaluation-bar block (lines 62-69)\<close>

text \<open>
  Nothing catches an exception of the engine here: the execution of the script stops, and
  the session state is still the one the block started with, since the sample is appended
  after both engine calls.
\<close>

definition eval_bar :: "'m rules \<Rightarrow> 'e engine \<Rightarrow> 'e \<Rightarrow> 'm session \<Rightarrow> exn + ('m session \<times> 'e)" where
  "eval_bar R E e s =
     (if \<not> is_game_over R (board s) then
        (case set_fen_position E (fen R (board s)) e of
           Inl x \<Rightarrow> Inl x
         | Inr e1 \<Rightarrow>
            (case get_evaluation E e1 of
               Inl x \<Rightarrow> Inl x
             | Inr (eval_data, e2) \<Rightarrow>
                 Inr (s\<lparr>evals := evals s @ [eval_score eval_data]\<rparr>, e2)))
      else Inr (s, e))"

subsection \<open>The Play Move handler (lines 85-139)\<close>

text \<open>
  Lines 91-97, the engine queries after the move has been pushed: the evaluation of the
  new position, the engine's best move there, and the evaluation after that best move.
\<close>

definition engine_queries ::
  "'e engine \<Rightarrow> string \<Rightarrow> 'e \<Rightarrow> exn + (evaluation \<times> string option \<times> evaluation)" where
  "engine_queries E position e =
     (case set_fen_position E position e of
        Inl x \<Rightarrow> Inl x
      | Inr e1 \<Rightarrow>
     (case get_evaluation E e1 of
        Inl x \<Rightarrow> Inl x
      | Inr (played_eval, e2) \<Rightarrow>
     (case get_best_move E e2 of
        Inl x \<Rightarrow> Inl x
      | Inr (bm, e3) \<Rightarrow>
     (case set_fen_position E position e3 of
        Inl x \<Rightarrow> Inl x
      | Inr e4 \<Rightarrow>
     (case make_moves_from_current_position E [bm] e4 of
        Inl x \<Rightarrow> Inl x
      | Inr e5 \<Rightarrow>
     (case get_evaluation E e5 of
        Inl x \<Rightarrow> Inl x
      | Inr (best_eval, e6) \<Rightarrow> Inr (played_eval, bm, best_eval)))))))"

text \<open>
  What the handler tells the user: nothing but the re-rendered board after a played move,
  \<^verbatim>\<open>st.error("Illegal move.")\<close> (line 137), or \<^verbatim>\<open>st.error(f"Invalid move format: {e}")\<close>
  (line 139) for every exception raised inside the \<^verbatim>\<open>try\<close>.
\<close>

datatype report = Move_Played | Illegal_Move | Invalid_Move_Format exn

text \<open>
  The handler returns its report and the session state it leaves. The push of line 89 is
  done before the engine is asked, and the \<^verbatim>\<open>except\<close> clause only reports: an exception of
  the engine leaves the pushed move on the board.
\<close>

definition play_move ::
  "'m rules \<Rightarrow> 'e engine \<Rightarrow> 'e \<Rightarrow> string \<Rightarrow> 'm session \<Rightarrow> report \<times> 'm session" where
  "play_move R E e text_input s =
     (case from_uci R (strip text_input) of
        Inl x \<Rightarrow> (Invalid_Move_Format x, s)
      | Inr move \<Rightarrow>
          if legal R (board s) move then
            (let s1 = s\<lparr>board := board s @ [move]\<rparr> in
             case engine_queries E (fen R (board s1)) e of
               Inl x \<Rightarrow> (Invalid_Move_Format x, s1)
             | Inr (played_eval, bm, best_eval) \<Rightarrow>
                 (let q = move_quality played_eval best_eval;
                      s2 = s1\<lparr>last_data := Filled
                              \<lparr>user_move = text_input, best_move = bm,
                               quality = q, eval = played_eval\<rparr>\<rparr>;
                      s3 = s2\<lparr>move_history := move_history s2 @
                              [\<lparr>Your_Move = text_input, Best_Move = bm,
                                Move_Quality = q, Eval = eval_value played_eval\<rparr>]\<rparr>
                  in (Move_Played, s3)))
          else (Illegal_Move, s))"

subsection \<open>The Undo handler (lines 142-148) and the Reset handler (lines 151-155)\<close>

definition undo :: "'m session \<Rightarrow> 'm session" where
  "undo s =
     (if board s \<noteq> [] then
        (let s1 = s\<lparr>board := butlast (board s)\<rparr>;
             s2 = (if evals s1 \<noteq> [] then s1\<lparr>evals := butlast (evals s1)\<rparr> else s1);
             s3 = (if move_history s2 \<noteq> []
                   then s2\<lparr>move_history := butlast (move_history s2)\<rparr> else s2)
         in s3)
      else s)"

definition reset :: "'m session \<Rightarrow> 'm session" where
  "reset s = s\<lparr>board := [], evals := [], move_history := [], last_data := Empty_Dict\<rparr>"

subsection \<open>One execution of the script, and a session\<close>

text \<open>
  The input of one execution: the content of the text field (line 54) and the value each
  \<^verbatim>\<open>st.button\<close> call returns. Streamlit reports a click to the one execution it triggers, so
  at most one of the three is true in practice; the script tests them one after the other
  (lines 85, 142, 151) and so does the model.
\<close>

record page_input =
  uci_input :: string
  play_clicked :: bool
  undo_clicked :: bool
  reset_clicked :: bool

datatype run_end = Stopped exn | Completed "report option"

definition script_run ::
  "'m rules \<Rightarrow> 'e engine \<Rightarrow> 'e \<Rightarrow> page_input \<Rightarrow> 'm session \<Rightarrow> run_end \<times> 'm session" where
  "script_run R E e inp s =
     (case eval_bar R E e s of
        Inl x \<Rightarrow> (Stopped x, s)
      | Inr (s1, e1) \<Rightarrow>
          (let (r, s2) = (if play_clicked inp
                          then (case play_move R E e1 (uci_input inp) s1 of
                                  (rep, t) \<Rightarrow> (Some rep, t))
                          else (None, s1));
               s3 = (if undo_clicked inp then undo s2 else s2);
               s4 = (if reset_clicked inp then reset s3 else s3)
           in (Completed r, s4)))"

text \<open>
  A session is a sequence of executions. Each one comes with the state its newly started
  engine is in, so that nothing is assumed about the engine from one execution to the next.
\<close>

fun session_runs :: "'m rules \<Rightarrow> 'e engine \<Rightarrow> ('e \<times> page_input) list \<Rightarrow> 'm session \<Rightarrow> 'm session" where
  "session_runs R E [] s = s"
| "session_runs R E ((e, inp) # rest) s = session_runs R E rest (snd (script_run R E e inp s))"

text \<open>The four kinds of execution a user can trigger.\<close>

definition render :: page_input where
  "render = \<lparr>uci_input = [], play_clicked = False, undo_clicked = False, reset_clicked = False\<rparr>"

definition click_play :: "string \<Rightarrow> page_input" where
  "click_play u = \<lparr>uci_input = u, play_clicked = True, undo_clicked = False, reset_clicked = False\<rparr>"

definition click_undo :: "string \<Rightarrow> page_input" where
  "click_undo u = \<lparr>uci_input = u, play_clicked = False, undo_clicked = True, reset_clicked = False\<rparr>"

definition click_reset :: "string \<Rightarrow> page_input" where
  "click_reset u = \<lparr>uci_input = u, play_clicked = False, undo_clicked = False, reset_clicked = True\<rparr>"


subsection \<open>The relation between the move history and the board\<close>

text \<open>The move history holds no more records than the board holds moves.\<close>

definition history_within_stack :: "'m session \<Rightarrow> bool" where
  "history_within_stack s = (length (move_history s) \<le> length (board s))"

subsection \<open>Stand-ins for the two services\<close>

text \<open>
  Closed examples need a rules service and an engine to run against. The stand-in rules
  know two lines of play from the starting position: the single move e2e4, and the four
  moves of the fool's mate, after which the game is over. The stand-in engine remembers the
  position it was given; it has no best move in the mated position and, like the wrapper,
  refuses to make the move \<^verbatim>\<open>None\<close>.
\<close>

definition fools_mate :: "string list" where
  "fools_mate = [''f2f3'', ''e7e5'', ''g2g4'', ''d8h4'']"

definition table_rules :: "string rules" where
  "table_rules =
     \<lparr>from_uci = (\<lambda>u. if length u = 4 \<or> length u = 5 then Inr u
                      else Inl ''expected uci string to be of length 4 or 5''),
      legal = (\<lambda>b m. b @ [m] = [''e2e4''] \<or> take (Suc (length b)) fools_mate = b @ [m]),
      is_game_over = (\<lambda>b. b = fools_mate),
      fen = concat\<rparr>"

definition table_engine :: "string engine" where
  "table_engine =
     \<lparr>set_fen_position = (\<lambda>position e. Inr position),
      get_evaluation = (\<lambda>e. Inr
         (if e = concat fools_mate then \<lparr>eval_type = ''mate'', eval_value = 0\<rparr>
          else if e = concat (take 3 fools_mate) then \<lparr>eval_type = ''mate'', eval_value = - 1\<rparr>
          else \<lparr>eval_type = ''cp'', eval_value = 30\<rparr>, e)),
      get_best_move = (\<lambda>e. Inr
         (if e = concat fools_mate then None
          else if e = concat (take 3 fools_mate) then Some ''d8h4''
          else Some ''g1f3'', e)),
      make_moves_from_current_position = (\<lambda>ms e.
         if None \<in> set ms then Inl ''Cannot make move: None''
         else Inr (e @ concat (map (\<lambda>m. case m of None \<Rightarrow> [] | Some u \<Rightarrow> u) ms)))\<rparr>"

text \<open>The session after the page was opened and three moves of the fool's mate were played.\<close>

definition before_mate :: "string session" where
  "before_mate = session_runs table_rules table_engine
     [([], render), ([], click_play ''f2f3''), ([], click_play ''e7e5''),
      ([], click_play ''g2g4'')] fresh"

text \<open>
  The same session after the mating move was submitted and Undo was pressed three times.
\<close>

definition after_undos :: "string session" where
  "after_undos = session_runs table_rules table_engine
     [([], click_play ''d8h4''), ([], click_undo ''d8h4''), ([], click_undo ''d8h4''),
      ([], click_undo ''d8h4'')] before_mate"

section \<open>Properties\<close>

subsection \<open>Evaluating the stand-ins\<close>

lemmas standin_defs = fools_mate_def table_rules_def table_engine_def fresh_def render_def
  click_play_def click_undo_def click_reset_def script_run_def eval_bar_def play_move_def
  engine_queries_def undo_def reset_def strip_def is_space_def eval_score_def move_quality_def

lemma before_mate_value:
  "before_mate =
     \<lparr>board = [''f2f3'', ''e7e5'', ''g2g4''], evals = [30, 30, 30, 30],
      move_history =
        [\<lparr>Your_Move = ''f2f3'', Best_Move = Some ''g1f3'', Move_Quality = Excellent, Eval = 30\<rparr>,
         \<lparr>Your_Move = ''e7e5'', Best_Move = Some ''g1f3'', Move_Quality = Excellent, Eval = 30\<rparr>,
         \<lparr>Your_Move = ''g2g4'', Best_Move = Some ''d8h4'', Move_Quality = Excellent, Eval = - 1\<rparr>],
      last_data = Filled \<lparr>user_move = ''g2g4'', best_move = Some ''d8h4'', quality = Excellent,
                          eval = \<lparr>eval_type = ''mate'', eval_value = - 1\<rparr>\<rparr>\<rparr>"
  unfolding before_mate_def by (simp add: standin_defs)

lemma after_undos_value:
  "after_undos =
     \<lparr>board = [''f2f3''], evals = [30, 30, 30, 30],
      move_history = [],
      last_data = Filled \<lparr>user_move = ''g2g4'', best_move = Some ''d8h4'', quality = Excellent,
                          eval = \<lparr>eval_type = ''mate'', eval_value = - 1\<rparr>\<rparr>\<rparr>"
  unfolding after_undos_def before_mate_value by (simp add: standin_defs)

subsection \<open>What each block leaves alone\<close>

lemma eval_bar_frame:
  assumes "eval_bar R E e s = Inr (t, e')"
  shows "board t = board s" and "move_history t = move_history s"
    and "last_data t = last_data s"
  using assms by (auto simp: eval_bar_def split: if_splits sum.splits prod.splits)

lemma play_move_not_played_frame:
  assumes "fst (play_move R E e u s) \<noteq> Move_Played"
  shows "evals (snd (play_move R E e u s)) = evals s"
    and "move_history (snd (play_move R E e u s)) = move_history s"
    and "last_data (snd (play_move R E e u s)) = last_data s"
  using assms by (auto simp: play_move_def Let_def split: sum.splits prod.splits if_splits)

lemma play_move_evals: "evals (snd (play_move R E e u s)) = evals s"
  by (auto simp: play_move_def Let_def split: sum.splits prod.splits)

lemma strip_e2e4: "strip ''e2e4'' = ''e2e4''"
  by (simp add: strip_def is_space_def)

lemma strip_e2e5: "strip ''e2e5'' = ''e2e5''"
  by (simp add: strip_def is_space_def)

subsection \<open>The move history never gets ahead of the board\<close>

lemma eval_bar_within:
  "history_within_stack s \<Longrightarrow> eval_bar R E e s = Inr (t, e') \<Longrightarrow> history_within_stack t"
  by (simp add: history_within_stack_def eval_bar_frame)

lemma play_move_within:
  "history_within_stack s \<Longrightarrow> history_within_stack (snd (play_move R E e u s))"
  by (auto simp: history_within_stack_def play_move_def Let_def split: sum.splits prod.splits)

lemma undo_within: "history_within_stack s \<Longrightarrow> history_within_stack (undo s)"
  by (auto simp: history_within_stack_def undo_def Let_def)

lemma reset_within: "history_within_stack (reset s)"
  by (simp add: history_within_stack_def reset_def)

lemma script_run_within:
  assumes "history_within_stack s"
  shows "history_within_stack (snd (script_run R E e inp s))"
proof (cases "eval_bar R E e s")
  case (Inl x)
  then show ?thesis using assms by (simp add: script_run_def)
next
  case (Inr p)
  obtain s1 e1 where p: "p = (s1, e1)" by (cases p)
  have w1: "history_within_stack s1"
    using eval_bar_within [OF assms, of R E e s1 e1] Inr p by simp
  define s2 where "s2 = (if play_clicked inp then snd (play_move R E e1 (uci_input inp) s1) else s1)"
  define s3 where "s3 = (if undo_clicked inp then undo s2 else s2)"
  define s4 where "s4 = (if reset_clicked inp then reset s3 else s3)"
  have w2: "history_within_stack s2"
    using w1 by (simp add: s2_def play_move_within)
  have w3: "history_within_stack s3"
    using w2 by (simp add: s3_def undo_within)
  have w4: "history_within_stack s4"
    using w3 by (simp add: s4_def reset_within)
  have "snd (script_run R E e inp s) = s4"
    by (simp add: script_run_def Inr p s4_def s3_def s2_def Let_def split: prod.splits)
  then show ?thesis using w4 by simp
qed

lemma session_runs_within:
  "history_within_stack s \<Longrightarrow> history_within_stack (session_runs R E rs s)"
proof (induction rs arbitrary: s)
  case Nil
  then show ?case by simp
next
  case (Cons r rs)
  obtain e inp where r: "r = (e, inp)" by (cases r)
  show ?case
    unfolding r session_runs.simps
    by (rule Cons.IH) (rule script_run_within [OF Cons.prems])
qed

lemma fresh_within: "history_within_stack fresh"
  by (simp add: history_within_stack_def fresh_def)

lemma undo_unfold:
  "undo s = (if board s \<noteq> []
             then s\<lparr>board := butlast (board s), evals := butlast (evals s),
                    move_history := butlast (move_history s)\<rparr>
             else s)"
  by (cases "evals s = []"; cases "move_history s = []") (simp_all add: undo_def Let_def)

section \<open>The claims\<close>

text \<open>
  C1 (as stated, refuted). The claim: in every reachable session state the move history and
  the evaluation-sample sequence have the same length. Opening the page executes the
  script once with no button pressed; the evaluation-bar block appends a sample and no
  move record exists, so the lengths are 0 and 1.
\<close>

theorem lockstep_counterexample:
  "length (move_history (session_runs table_rules table_engine [([], render)] fresh))
     \<noteq> length (evals (session_runs table_rules table_engine [([], render)] fresh))"
  by (simp add: standin_defs)

text \<open>
  C1 (amended). In every session state reachable from a fresh session, by any sequence of
  script executions with any buttons pressed, the move history is no longer than the move
  stack of the board. The move history and the sample sequence are both empty in a fresh
  session and after Reset. They are not kept at the same length: the Play Move handler
  appends no sample, and an execution that only renders a position in which the game is not
  over appends one sample and no move record.
\<close>

theorem history_within_move_stack:
  "length (move_history (session_runs R E rs fresh))
     \<le> length (board (session_runs R E rs fresh))
   \<and> evals (fresh :: 'm session) = [] \<and> move_history (fresh :: 'm session) = []
   \<and> evals (reset s) = [] \<and> move_history (reset s) = []
   \<and> evals (snd (play_move R E e u s)) = evals s
   \<and> (\<not> is_game_over R (board s) \<longrightarrow> eval_bar R E e s = Inr (t, e') \<longrightarrow>
        script_run R E e render s = (Completed None, t)
        \<and> length (evals t) = Suc (length (evals s))
        \<and> move_history t = move_history s)"
proof -
  have "history_within_stack (session_runs R E rs fresh)"
    by (rule session_runs_within) (rule fresh_within)
  then have inv: "length (move_history (session_runs R E rs fresh))
     \<le> length (board (session_runs R E rs fresh))"
    by (simp add: history_within_stack_def)
  have empty: "evals (fresh :: 'm session) = [] \<and> move_history (fresh :: 'm session) = []
     \<and> evals (reset s) = [] \<and> move_history (reset s) = []"
    by (simp add: fresh_def reset_def)
  have sample: "script_run R E e render s = (Completed None, t)
        \<and> length (evals t) = Suc (length (evals s))
        \<and> move_history t = move_history s"
    if "\<not> is_game_over R (board s)" and "eval_bar R E e s = Inr (t, e')"
    using that
    by (auto simp: script_run_def render_def eval_bar_def split: sum.splits prod.splits)
  from inv empty sample play_move_evals [of R E e u s] show ?thesis by blast
qed

theorem history_within_move_stack_witness:
  "length (move_history before_mate) \<le> length (board before_mate)
   \<and> \<not> is_game_over table_rules (board (fresh :: string session))
   \<and> eval_bar table_rules table_engine [] (fresh :: string session)
       = Inr (fresh\<lparr>evals := [30]\<rparr>, [])
   \<and> script_run table_rules table_engine [] render (fresh :: string session)
       = (Completed None, fresh\<lparr>evals := [30]\<rparr>)
   \<and> length (evals ((fresh :: string session)\<lparr>evals := [30]\<rparr>)) = Suc (length (evals (fresh :: string session)))"
proof -
  have h1: "\<not> is_game_over table_rules (board (fresh :: string session))"
    by (simp add: standin_defs)
  have h2: "eval_bar table_rules table_engine [] (fresh :: string session)
       = Inr (fresh\<lparr>evals := [30]\<rparr>, [])"
    by (simp add: standin_defs)
  note inst = history_within_move_stack
         [where R = table_rules and E = table_engine and s = "fresh :: string session"
            and e = "[]" and t = "fresh\<lparr>evals := [30]\<rparr>" and e' = "[]" and u = "[]"
            and rs = "[([], render), ([], click_play ''f2f3''), ([], click_play ''e7e5''),
                       ([], click_play ''g2g4'')]"]
  have c1: "length (move_history before_mate) \<le> length (board before_mate)"
    unfolding before_mate_def using inst by (rule conjunct1)
  have c2: "script_run table_rules table_engine [] render (fresh :: string session)
       = (Completed None, fresh\<lparr>evals := [30]\<rparr>)
   \<and> length (evals ((fresh :: string session)\<lparr>evals := [30]\<rparr>)) = Suc (length (evals (fresh :: string session)))"
    using inst h1 h2 by blast
  from c1 h1 h2 c2 show ?thesis by blast
qed

text \<open>
  C2 (the code departs from the claim). The claim: when the rules or the engine raise during
  a move submission, the session state is what it was before. In the session
  \<open>before_mate\<close> the user submits the mating move d8h4. The move is legal and is pushed
  (line 89); the engine has no best move in the mated position and raises when asked to
  make the move \<^verbatim>\<open>None\<close> (line 96). The handler reports an invalid move format, no move
  record is appended, and the pushed move stays on the board.
\<close>

theorem engine_exception_keeps_pushed_move:
  "play_move table_rules table_engine [] ''d8h4'' before_mate
     = (Invalid_Move_Format ''Cannot make move: None'', before_mate\<lparr>board := fools_mate\<rparr>)
   \<and> script_run table_rules table_engine [] (click_play ''d8h4'') before_mate
     = (Completed (Some (Invalid_Move_Format ''Cannot make move: None'')),
        before_mate\<lparr>board := fools_mate, evals := evals before_mate @ [- 1000]\<rparr>)
   \<and> board before_mate = [''f2f3'', ''e7e5'', ''g2g4'']
   \<and> length (move_history before_mate) = 3"
  unfolding before_mate_value by (simp add: standin_defs)

text \<open>
  C3. For two evaluations of the same kind, the label is decided by the absolute difference
  of their values, in buckets that include their lower bound: below 30 Excellent, from 30
  below 80 Good, from 80 below 150 Inaccuracy, from 150 below 300 Mistake, from 300 on
  Blunder; the differences 29, 30, 79, 80, 149, 150, 299, 300 give Excellent, Good, Good,
  Inaccuracy, Inaccuracy, Mistake, Mistake, Blunder.
\<close>

theorem move_quality_buckets:
  assumes "eval_type score1 = eval_type score2"
    and "diff = \<bar>eval_value score1 - eval_value score2\<bar>"
  shows "(diff < 30 \<longrightarrow> move_quality score1 score2 = Excellent)
       \<and> (30 \<le> diff \<and> diff < 80 \<longrightarrow> move_quality score1 score2 = Good)
       \<and> (80 \<le> diff \<and> diff < 150 \<longrightarrow> move_quality score1 score2 = Inaccuracy)
       \<and> (150 \<le> diff \<and> diff < 300 \<longrightarrow> move_quality score1 score2 = Mistake)
       \<and> (300 \<le> diff \<longrightarrow> move_quality score1 score2 = Blunder)
       \<and> (diff = 29 \<longrightarrow> move_quality score1 score2 = Excellent)
       \<and> (diff = 30 \<longrightarrow> move_quality score1 score2 = Good)
       \<and> (diff = 79 \<longrightarrow> move_quality score1 score2 = Good)
       \<and> (diff = 80 \<longrightarrow> move_quality score1 score2 = Inaccuracy)
       \<and> (diff = 149 \<longrightarrow> move_quality score1 score2 = Inaccuracy)
       \<and> (diff = 150 \<longrightarrow> move_quality score1 score2 = Mistake)
       \<and> (diff = 299 \<longrightarrow> move_quality score1 score2 = Mistake)
       \<and> (diff = 300 \<longrightarrow> move_quality score1 score2 = Blunder)"
proof -
  have q: "move_quality score1 score2 =
             (if diff < 30 then Excellent else if diff < 80 then Good
              else if diff < 150 then Inaccuracy else if diff < 300 then Mistake
              else Blunder)"
    using assms by (simp add: move_quality_def Let_def)
  show ?thesis unfolding q by simp
qed

theorem move_quality_buckets_witness:
  "move_quality \<lparr>eval_type = ''cp'', eval_value = 29\<rparr> \<lparr>eval_type = ''cp'', eval_value = 0\<rparr> = Excellent
   \<and> move_quality \<lparr>eval_type = ''cp'', eval_value = - 10\<rparr> \<lparr>eval_type = ''cp'', eval_value = 20\<rparr> = Good
   \<and> move_quality \<lparr>eval_type = ''cp'', eval_value = 100\<rparr> \<lparr>eval_type = ''cp'', eval_value = 21\<rparr> = Good
   \<and> move_quality \<lparr>eval_type = ''cp'', eval_value = 0\<rparr> \<lparr>eval_type = ''cp'', eval_value = 80\<rparr> = Inaccuracy
   \<and> move_quality \<lparr>eval_type = ''cp'', eval_value = 149\<rparr> \<lparr>eval_type = ''cp'', eval_value = 0\<rparr> = Inaccuracy
   \<and> move_quality \<lparr>eval_type = ''cp'', eval_value = - 75\<rparr> \<lparr>eval_type = ''cp'', eval_value = 75\<rparr> = Mistake
   \<and> move_quality \<lparr>eval_type = ''cp'', eval_value = 300\<rparr> \<lparr>eval_type = ''cp'', eval_value = 1\<rparr> = Mistake
   \<and> move_quality \<lparr>eval_type = ''cp'', eval_value = 0\<rparr> \<lparr>eval_type = ''cp'', eval_value = 300\<rparr> = Blunder
   \<and> move_quality \<lparr>eval_type = ''mate'', eval_value = - 1\<rparr> \<lparr>eval_type = ''mate'', eval_value = 0\<rparr> = Excellent"
  using move_quality_buckets
          [of "\<lparr>eval_type = ''cp'', eval_value = 29\<rparr>" "\<lparr>eval_type = ''cp'', eval_value = 0\<rparr>" 29]
        move_quality_buckets
          [of "\<lparr>eval_type = ''cp'', eval_value = - 10\<rparr>" "\<lparr>eval_type = ''cp'', eval_value = 20\<rparr>" 30]
        move_quality_buckets
          [of "\<lparr>eval_type = ''cp'', eval_value = 100\<rparr>" "\<lparr>eval_type = ''cp'', eval_value = 21\<rparr>" 79]
        move_quality_buckets
          [of "\<lparr>eval_type = ''cp'', eval_value = 0\<rparr>" "\<lparr>eval_type = ''cp'', eval_value = 80\<rparr>" 80]
        move_quality_buckets
          [of "\<lparr>eval_type = ''cp'', eval_value = 149\<rparr>" "\<lparr>eval_type = ''cp'', eval_value = 0\<rparr>" 149]
        move_quality_buckets
          [of "\<lparr>eval_type = ''cp'', eval_value = - 75\<rparr>" "\<lparr>eval_type = ''cp'', eval_value = 75\<rparr>" 150]
        move_quality_buckets
          [of "\<lparr>eval_type = ''cp'', eval_value = 300\<rparr>" "\<lparr>eval_type = ''cp'', eval_value = 1\<rparr>" 299]
        move_quality_buckets
          [of "\<lparr>eval_type = ''cp'', eval_value = 0\<rparr>" "\<lparr>eval_type = ''cp'', eval_value = 300\<rparr>" 300]
        move_quality_buckets
          [of "\<lparr>eval_type = ''mate'', eval_value = - 1\<rparr>" "\<lparr>eval_type = ''mate'', eval_value = 0\<rparr>" 1]
  by simp

text \<open>
  C4. Two evaluations of different kinds are classified Unclear, whatever their values.
\<close>

theorem cross_kind_unclear:
  "eval_type score1 \<noteq> eval_type score2 \<Longrightarrow> move_quality score1 score2 = Unclear"
  by (simp add: move_quality_def)

theorem cross_kind_unclear_witness:
  "eval_type \<lparr>eval_type = ''cp'', eval_value = 500\<rparr> \<noteq> eval_type \<lparr>eval_type = ''mate'', eval_value = 2\<rparr>
   \<and> move_quality \<lparr>eval_type = ''cp'', eval_value = 500\<rparr> \<lparr>eval_type = ''mate'', eval_value = 2\<rparr> = Unclear
   \<and> move_quality \<lparr>eval_type = ''mate'', eval_value = 2\<rparr> \<lparr>eval_type = ''cp'', eval_value = 2\<rparr> = Unclear"
  using cross_kind_unclear
          [of "\<lparr>eval_type = ''cp'', eval_value = 500\<rparr>" "\<lparr>eval_type = ''mate'', eval_value = 2\<rparr>"]
        cross_kind_unclear
          [of "\<lparr>eval_type = ''mate'', eval_value = 2\<rparr>" "\<lparr>eval_type = ''cp'', eval_value = 2\<rparr>"]
  by simp

text \<open>
  C5. A move string that parses to a move which is not legal in the current position is
  answered with the illegal-move report, and the handler leaves the whole session state
  (board, move history, samples, summary) as it found it. With rules under which e2e5 is not
  legal at the start, submitting e2e5 in a fresh session is one such case.
\<close>

theorem illegal_move_no_change:
  assumes "from_uci R (strip u) = Inr m"
    and "\<not> legal R (board s) m"
  shows "play_move R E e u s = (Illegal_Move, s)"
  using assms by (simp add: play_move_def)

theorem illegal_move_no_change_witness:
  "from_uci table_rules (strip ''e2e5'') = Inr ''e2e5''
   \<and> \<not> legal table_rules (board (fresh :: string session)) ''e2e5''
   \<and> play_move table_rules table_engine [] ''e2e5'' fresh = (Illegal_Move, fresh)
   \<and> length (move_history (snd (play_move table_rules table_engine [] ''e2e5'' fresh))) = 0"
proof -
  have h1: "from_uci table_rules (strip ''e2e5'') = Inr ''e2e5''"
    by (simp add: strip_e2e5 table_rules_def)
  have h2: "\<not> legal table_rules (board (fresh :: string session)) ''e2e5''"
    by (simp add: table_rules_def fools_mate_def fresh_def)
  have r: "play_move table_rules table_engine [] ''e2e5'' fresh = (Illegal_Move, fresh)"
    using h1 h2 by (rule illegal_move_no_change)
  have "length (move_history (fresh :: string session)) = 0"
    by (simp add: fresh_def)
  with h1 h2 r show ?thesis by simp
qed

text \<open>
  C6 (as stated, refuted). The claim: Undo with an empty move history is a no-op. In the
  session \<open>after_undos\<close> the move history is empty while the board still holds one move,
  and the Undo handler takes that move back and removes a sample.
\<close>

theorem undo_empty_history_counterexample:
  "move_history after_undos = [] \<and> undo after_undos \<noteq> after_undos
   \<and> board (undo after_undos) = [] \<and> board after_undos = [''f2f3'']
   \<and> evals (undo after_undos) = [30, 30, 30] \<and> evals after_undos = [30, 30, 30, 30]"
  unfolding after_undos_value by (simp add: undo_def)

text \<open>
  C6 (amended). Undo is guarded by the move stack of the board. When the stack is not
  empty, Undo takes back the last move of the board and removes the most recent sample and
  the most recent move record, each if there is one; when the stack is empty, Undo changes
  nothing and is not an error. In every session state reachable from a fresh session a
  non-empty move history comes with a non-empty move stack, so there Undo does remove the
  most recent move record. Undo after a step that pushed a move and appended one sample and
  one record gives back the state before that step.
\<close>

theorem undo_follows_move_stack:
  "(board s \<noteq> [] \<longrightarrow>
      undo s = s\<lparr>board := butlast (board s), evals := butlast (evals s),
                 move_history := butlast (move_history s)\<rparr>)
   \<and> (board s = [] \<longrightarrow> undo s = s)
   \<and> (move_history (session_runs R E rs fresh) \<noteq> [] \<longrightarrow>
        move_history (undo (session_runs R E rs fresh))
          = butlast (move_history (session_runs R E rs fresh))
        \<and> evals (undo (session_runs R E rs fresh))
          = butlast (evals (session_runs R E rs fresh))
        \<and> board (undo (session_runs R E rs fresh))
          = butlast (board (session_runs R E rs fresh)))
   \<and> undo (s\<lparr>board := board s @ [m], evals := evals s @ [v],
              move_history := move_history s @ [r]\<rparr>) = s"
proof -
  have a: "board s \<noteq> [] \<longrightarrow>
      undo s = s\<lparr>board := butlast (board s), evals := butlast (evals s),
                 move_history := butlast (move_history s)\<rparr>"
    by (simp add: undo_unfold)
  have b: "board s = [] \<longrightarrow> undo s = s"
    by (simp add: undo_unfold)
  have c: "move_history (undo t) = butlast (move_history t)
        \<and> evals (undo t) = butlast (evals t) \<and> board (undo t) = butlast (board t)"
    if t: "t = session_runs R E rs fresh" and ne: "move_history t \<noteq> []" for t
  proof -
    have "history_within_stack t"
      unfolding t by (rule session_runs_within) (rule fresh_within)
    with ne have "board t \<noteq> []"
      by (auto simp: history_within_stack_def)
    then show ?thesis by (simp add: undo_unfold)
  qed
  have d: "undo (s\<lparr>board := board s @ [m], evals := evals s @ [v],
              move_history := move_history s @ [r]\<rparr>) = s"
    by (simp add: undo_unfold)
  from a b c d show ?thesis by blast
qed

theorem undo_follows_move_stack_witness:
  "board before_mate \<noteq> []
   \<and> undo before_mate = before_mate\<lparr>board := [''f2f3'', ''e7e5''], evals := [30, 30, 30],
        move_history := butlast (move_history before_mate)\<rparr>
   \<and> board (fresh :: string session) = [] \<and> undo (fresh :: string session) = fresh
   \<and> move_history before_mate \<noteq> []
   \<and> length (move_history (undo before_mate)) = 2"
proof -
  have h1: "board before_mate \<noteq> []" and h2: "move_history before_mate \<noteq> []"
    unfolding before_mate_value by simp_all
  have h3: "board (fresh :: string session) = []"
    by (simp add: fresh_def)
  note a = undo_follows_move_stack [where s = before_mate and R = table_rules
      and E = table_engine
      and rs = "[([], render), ([], click_play ''f2f3''), ([], click_play ''e7e5''),
                 ([], click_play ''g2g4'')]"]
  note b = undo_follows_move_stack [where s = "fresh :: string session"
      and R = table_rules and E = table_engine and rs = "[]"]
  have u: "undo before_mate = before_mate\<lparr>board := butlast (board before_mate),
      evals := butlast (evals before_mate),
      move_history := butlast (move_history before_mate)\<rparr>"
    using a h1 by blast
  have l: "move_history (undo before_mate) = butlast (move_history before_mate)"
    using a h2 unfolding before_mate_def [symmetric] by blast
  have f: "undo (fresh :: string session) = fresh"
    using b h3 by blast
  have u': "undo before_mate = before_mate\<lparr>board := [''f2f3'', ''e7e5''], evals := [30, 30, 30],
        move_history := butlast (move_history before_mate)\<rparr>"
    unfolding u by (simp add: before_mate_value)
  have l': "length (move_history (undo before_mate)) = 2"
    unfolding l by (simp add: before_mate_value)
  from h1 u' h3 f h2 l' show ?thesis by blast
qed

text \<open>
  C7. Whatever the session state, the Reset handler leaves the board at the starting
  position with an empty move stack, an empty move history, an empty sample sequence, and a
  summary entry that shows no data. The handler is a total function of the state: it has no
  error result. Every execution of the script in which Reset is pressed and which reaches
  the handlers ends in that state.
\<close>

theorem reset_clears_session:
  "board (reset s) = board (fresh :: 'm session) \<and> board (reset s) = []
   \<and> move_history (reset s) = [] \<and> evals (reset s) = []
   \<and> last_data (reset s) = Empty_Dict \<and> \<not> shows_summary (last_data (reset s))
   \<and> reset s = reset (fresh :: 'm session)
   \<and> (reset_clicked inp \<longrightarrow> eval_bar R E e s = Inr (s1, e1) \<longrightarrow>
        snd (script_run R E e inp s) = reset (fresh :: 'm session))"
proof -
  have same: "reset t = reset (fresh :: 'm session)" for t :: "'m session"
    by (simp add: reset_def fresh_def)
  have fields: "board (reset s) = board (fresh :: 'm session) \<and> board (reset s) = []
   \<and> move_history (reset s) = [] \<and> evals (reset s) = []
   \<and> last_data (reset s) = Empty_Dict \<and> \<not> shows_summary (last_data (reset s))"
    by (simp add: reset_def fresh_def)
  have run: "snd (script_run R E e inp s) = reset (fresh :: 'm session)"
    if "reset_clicked inp" and "eval_bar R E e s = Inr (s1, e1)"
  proof -
    have "\<exists>t. snd (script_run R E e inp s) = reset t"
      using that by (auto simp: script_run_def Let_def split: prod.splits)
    then obtain t where "snd (script_run R E e inp s) = reset t" ..
    then show ?thesis using same [of t] by simp
  qed
  from same [of s] fields run show ?thesis by blast
qed

theorem reset_clears_session_witness:
  "reset_clicked (click_reset ''e2e4'')
   \<and> eval_bar table_rules table_engine [] before_mate
       = Inr (before_mate\<lparr>evals := [30, 30, 30, 30, - 1000]\<rparr>, ''f2f3e7e5g2g4'')
   \<and> snd (script_run table_rules table_engine [] (click_reset ''e2e4'') before_mate)
       = \<lparr>board = [], evals = [], move_history = [], last_data = Empty_Dict\<rparr>"
proof -
  have h1: "reset_clicked (click_reset ''e2e4'')"
    by (simp add: click_reset_def)
  have h2: "eval_bar table_rules table_engine [] before_mate
       = Inr (before_mate\<lparr>evals := [30, 30, 30, 30, - 1000]\<rparr>, ''f2f3e7e5g2g4'')"
    unfolding before_mate_value
    by (simp add: eval_bar_def eval_score_def table_rules_def table_engine_def fools_mate_def)
  have r: "snd (script_run table_rules table_engine [] (click_reset ''e2e4'') before_mate)
       = reset (fresh :: string session)"
    using reset_clears_session [where inp = "click_reset ''e2e4''" and R = table_rules
        and E = table_engine and e = "[]" and s = before_mate
        and ?s1.0 = "before_mate\<lparr>evals := [30, 30, 30, 30, - 1000]\<rparr>"
        and ?e1.0 = "''f2f3e7e5g2g4''"] h1 h2
    by blast
  have v: "reset (fresh :: string session)
       = \<lparr>board = [], evals = [], move_history = [], last_data = Empty_Dict\<rparr>"
    by (simp add: reset_def fresh_def)
  from h1 h2 r [unfolded v] show ?thesis by blast
qed

text \<open>
  C8. At the starting position with an empty move history, submitting the string e2e4
  succeeds whenever the rules parse it to a move that is legal at the start and the engine
  answers its queries: the move is on the board, the move history holds exactly one record,
  and the played move of that record is e2e4.
\<close>

theorem e2e4_from_start:
  assumes "from_uci R ''e2e4'' = Inr m"
    and "legal R [] m"
    and "engine_queries E (fen R [m]) e = Inr (played_eval, bm, best_eval)"
    and "board s = []"
    and "move_history s = []"
  shows "fst (play_move R E e ''e2e4'' s) = Move_Played
       \<and> board (snd (play_move R E e ''e2e4'' s)) = [m]
       \<and> move_history (snd (play_move R E e ''e2e4'' s))
           = [\<lparr>Your_Move = ''e2e4'', Best_Move = bm,
               Move_Quality = move_quality played_eval best_eval,
               Eval = eval_value played_eval\<rparr>]
       \<and> length (move_history (snd (play_move R E e ''e2e4'' s))) = 1
       \<and> Your_Move (last (move_history (snd (play_move R E e ''e2e4'' s)))) = ''e2e4''"
  using assms by (simp add: play_move_def strip_e2e4 Let_def)

theorem e2e4_from_start_witness:
  "from_uci table_rules ''e2e4'' = Inr ''e2e4''
   \<and> legal table_rules [] ''e2e4''
   \<and> engine_queries table_engine (fen table_rules [''e2e4'']) []
       = Inr (\<lparr>eval_type = ''cp'', eval_value = 30\<rparr>, Some ''g1f3'',
              \<lparr>eval_type = ''cp'', eval_value = 30\<rparr>)
   \<and> board (fresh :: string session) = [] \<and> move_history (fresh :: string session) = []
   \<and> fst (play_move table_rules table_engine [] ''e2e4'' fresh) = Move_Played
   \<and> board (snd (play_move table_rules table_engine [] ''e2e4'' fresh)) = [''e2e4'']
   \<and> length (move_history (snd (play_move table_rules table_engine [] ''e2e4'' fresh))) = 1
   \<and> Your_Move (last (move_history (snd (play_move table_rules table_engine [] ''e2e4'' fresh))))
       = ''e2e4''"
proof -
  have h1: "from_uci table_rules ''e2e4'' = Inr ''e2e4''"
    by (simp add: table_rules_def)
  have h2: "legal table_rules [] ''e2e4''"
    by (simp add: table_rules_def)
  have h3: "engine_queries table_engine (fen table_rules [''e2e4'']) []
       = Inr (\<lparr>eval_type = ''cp'', eval_value = 30\<rparr>, Some ''g1f3'',
              \<lparr>eval_type = ''cp'', eval_value = 30\<rparr>)"
    by (simp add: engine_queries_def table_engine_def table_rules_def fools_mate_def)
  have h4: "board (fresh :: string session) = []"
    and h5: "move_history (fresh :: string session) = []"
    by (simp_all add: fresh_def)
  from e2e4_from_start [OF h1 h2 h3 h4 h5] h1 h2 h3 h4 h5
  show ?thesis by blast
qed

text \<open>
  C9. When the game is not over and the engine answers, the evaluation-bar block appends
  exactly one sample to the chart sequence: the engine's value when the evaluation is in
  centipawns, 1000 when it is a mate evaluation with a positive value, and - 1000 when it
  is a mate evaluation with a value of zero or less. An evaluation that is not in
  centipawns never contributes its own value.
\<close>

theorem eval_bar_sample:
  assumes "\<not> is_game_over R (board s)"
    and "set_fen_position E (fen R (board s)) e = Inr e1"
    and "get_evaluation E e1 = Inr (eval_data, e2)"
  shows "eval_bar R E e s = Inr (s\<lparr>evals := evals s @ [eval_score eval_data]\<rparr>, e2)
       \<and> (eval_type eval_data = ''cp'' \<longrightarrow> eval_score eval_data = eval_value eval_data)
       \<and> (eval_type eval_data = ''mate'' \<and> 0 < eval_value eval_data \<longrightarrow>
            eval_score eval_data = 1000)
       \<and> (eval_type eval_data = ''mate'' \<and> eval_value eval_data \<le> 0 \<longrightarrow>
            eval_score eval_data = - 1000)
       \<and> (eval_type eval_data \<noteq> ''cp'' \<longrightarrow>
            eval_score eval_data = (if 0 < eval_value eval_data then 1000 else - 1000))"
  using assms by (simp add: eval_bar_def eval_score_def)

theorem eval_bar_sample_witness:
  "\<not> is_game_over table_rules (board before_mate)
   \<and> set_fen_position table_engine (fen table_rules (board before_mate)) []
       = Inr ''f2f3e7e5g2g4''
   \<and> get_evaluation table_engine ''f2f3e7e5g2g4''
       = Inr (\<lparr>eval_type = ''mate'', eval_value = - 1\<rparr>, ''f2f3e7e5g2g4'')
   \<and> eval_bar table_rules table_engine [] before_mate
       = Inr (before_mate\<lparr>evals := evals before_mate @ [- 1000]\<rparr>, ''f2f3e7e5g2g4'')
   \<and> set_fen_position table_engine (fen table_rules (board (fresh :: string session))) []
       = Inr []
   \<and> get_evaluation table_engine [] = Inr (\<lparr>eval_type = ''cp'', eval_value = 30\<rparr>, [])
   \<and> eval_bar table_rules table_engine [] (fresh :: string session)
       = Inr (fresh\<lparr>evals := [30]\<rparr>, [])"
proof -
  have h1: "\<not> is_game_over table_rules (board before_mate)"
    by (simp add: before_mate_value table_rules_def fools_mate_def)
  have h2: "set_fen_position table_engine (fen table_rules (board before_mate)) []
       = Inr ''f2f3e7e5g2g4''"
    by (simp add: before_mate_value table_rules_def table_engine_def)
  have h3: "get_evaluation table_engine ''f2f3e7e5g2g4''
       = Inr (\<lparr>eval_type = ''mate'', eval_value = - 1\<rparr>, ''f2f3e7e5g2g4'')"
    by (simp add: table_engine_def fools_mate_def)
  have k1: "\<not> is_game_over table_rules (board (fresh :: string session))"
    by (simp add: fresh_def table_rules_def fools_mate_def)
  have k2: "set_fen_position table_engine (fen table_rules (board (fresh :: string session))) []
       = Inr []"
    by (simp add: fresh_def table_rules_def table_engine_def)
  have k3: "get_evaluation table_engine [] = Inr (\<lparr>eval_type = ''cp'', eval_value = 30\<rparr>, [])"
    by (simp add: table_engine_def fools_mate_def)
  have a: "eval_bar table_rules table_engine [] before_mate
       = Inr (before_mate\<lparr>evals := evals before_mate @ [- 1000]\<rparr>, ''f2f3e7e5g2g4'')"
    using eval_bar_sample [OF h1 h2 h3] by simp
  have b: "eval_bar table_rules table_engine [] (fresh :: string session)
       = Inr (fresh\<lparr>evals := [30]\<rparr>, [])"
    using eval_bar_sample [OF k1 k2 k3] by (simp add: fresh_def)
  from h1 h2 h3 a k2 k3 b show ?thesis by blast
qed

text \<open>
  C10. The Undo handler does not touch the summary of the last move. After a played move is
  undone, the summary is still the one that move stored: its move string, the engine's best
  move, the quality label and the evaluation. The evaluation-bar block and a move submission
  that does not end in a played move leave the summary alone as well, so only a played move
  or Reset replace it.
\<close>

theorem undo_keeps_summary:
  "last_data (undo s) = last_data s
   \<and> (from_uci R (strip u) = Inr m \<longrightarrow> legal R (board s) m \<longrightarrow>
        engine_queries E (fen R (board s @ [m])) e = Inr (played_eval, bm, best_eval) \<longrightarrow>
        fst (play_move R E e u s) = Move_Played
        \<and> last_data (undo (snd (play_move R E e u s)))
            = Filled \<lparr>user_move = u, best_move = bm,
                      quality = move_quality played_eval best_eval, eval = played_eval\<rparr>)
   \<and> (fst (play_move R E e u s) \<noteq> Move_Played \<longrightarrow>
        last_data (snd (play_move R E e u s)) = last_data s)
   \<and> (eval_bar R E e s = Inr (t, e') \<longrightarrow> last_data t = last_data s)"
proof -
  have a: "last_data (undo s') = last_data s'" for s' :: "'a session"
    by (simp add: undo_unfold)
  have b: "fst (play_move R E e u s) = Move_Played
        \<and> last_data (snd (play_move R E e u s))
            = Filled \<lparr>user_move = u, best_move = bm,
                      quality = move_quality played_eval best_eval, eval = played_eval\<rparr>"
    if "from_uci R (strip u) = Inr m" and "legal R (board s) m"
      and "engine_queries E (fen R (board s @ [m])) e = Inr (played_eval, bm, best_eval)"
    using that by (simp add: play_move_def Let_def)
  have c: "fst (play_move R E e u s) \<noteq> Move_Played \<longrightarrow>
        last_data (snd (play_move R E e u s)) = last_data s"
    by (simp add: play_move_not_played_frame)
  have d: "eval_bar R E e s = Inr (t, e') \<longrightarrow> last_data t = last_data s"
    by (simp add: eval_bar_frame)
  from a [of s] a [of "snd (play_move R E e u s)"] b c d show ?thesis by simp
qed

theorem undo_keeps_summary_witness:
  "from_uci table_rules (strip ''e2e4'') = Inr ''e2e4''
   \<and> legal table_rules (board (fresh :: string session)) ''e2e4''
   \<and> engine_queries table_engine (fen table_rules (board (fresh :: string session) @ [''e2e4''])) []
       = Inr (\<lparr>eval_type = ''cp'', eval_value = 30\<rparr>, Some ''g1f3'',
              \<lparr>eval_type = ''cp'', eval_value = 30\<rparr>)
   \<and> last_data (undo (snd (play_move table_rules table_engine [] ''e2e4'' fresh)))
       = Filled \<lparr>user_move = ''e2e4'', best_move = Some ''g1f3'',
                 quality = Excellent, eval = \<lparr>eval_type = ''cp'', eval_value = 30\<rparr>\<rparr>
   \<and> board (undo (snd (play_move table_rules table_engine [] ''e2e4'' fresh))) = []
   \<and> last_data (undo before_mate) = last_data before_mate"
proof -
  have h1: "from_uci table_rules (strip ''e2e4'') = Inr ''e2e4''"
    by (simp add: strip_e2e4 table_rules_def)
  have h2: "legal table_rules (board (fresh :: string session)) ''e2e4''"
    by (simp add: table_rules_def fresh_def)
  have h3: "engine_queries table_engine
       (fen table_rules (board (fresh :: string session) @ [''e2e4''])) []
       = Inr (\<lparr>eval_type = ''cp'', eval_value = 30\<rparr>, Some ''g1f3'',
              \<lparr>eval_type = ''cp'', eval_value = 30\<rparr>)"
    by (simp add: engine_queries_def table_engine_def table_rules_def fools_mate_def fresh_def)
  note inst = undo_keeps_summary [where s = "fresh :: string session" and R = table_rules
      and E = table_engine and e = "[]" and u = "''e2e4''" and m = "''e2e4''"
      and played_eval = "\<lparr>eval_type = ''cp'', eval_value = 30\<rparr>" and bm = "Some ''g1f3''"
      and best_eval = "\<lparr>eval_type = ''cp'', eval_value = 30\<rparr>"]
  have q: "move_quality \<lparr>eval_type = ''cp'', eval_value = 30\<rparr>
             \<lparr>eval_type = ''cp'', eval_value = 30\<rparr> = Excellent"
    by (simp add: move_quality_def)
  have a: "last_data (undo (snd (play_move table_rules table_engine [] ''e2e4'' fresh)))
       = Filled \<lparr>user_move = ''e2e4'', best_move = Some ''g1f3'',
                 quality = Excellent, eval = \<lparr>eval_type = ''cp'', eval_value = 30\<rparr>\<rparr>"
    using inst h1 h2 h3 unfolding q by blast
  have b: "board (undo (snd (play_move table_rules table_engine [] ''e2e4'' fresh))) = []"
    by (simp add: standin_defs)
  have c: "last_data (undo before_mate) = last_data before_mate"
    using undo_keeps_summary [where s = before_mate and R = table_rules
        and E = table_engine and e = "[]" and u = "[]" and m = "[]"]
    by (rule conjunct1)
  from h1 h2 h3 a b c show ?thesis by blast
qed
end
